theory Spec2Isabelle
  imports Main "HOL-Library.Sublist" "HOL-Library.List_Lexorder" "HOL-Library.Char_ord"
begin

section \<open>Python string operations used by \<open>scripts/list_pubs.py\<close>\<close>

text \<open>
  Text is modelled as \<^typ>\<open>string\<close>, one \<^typ>\<open>char\<close> per character, restricted to
  ASCII: a character outside ASCII is neither white space nor a cased letter here.
  Strings are ordered lexicographically by character code, as Python orders \<open>str\<close>.
  An exception is represented by its message, the text \<open>str(e)\<close>.
\<close>

type_synonym py_exception = string

definition py_isspace :: "char \<Rightarrow> bool" where
  \<comment> \<open>the ASCII characters for which \<open>str.isspace\<close> holds\<close>
  "py_isspace c = (c \<in> set [CHR 0x09, CHR 0x0A, CHR 0x0B, CHR 0x0C, CHR 0x0D,
                             CHR 0x1C, CHR 0x1D, CHR 0x1E, CHR 0x1F, CHR 0x20])"

definition py_strip :: "string \<Rightarrow> string" where
  \<comment> \<open>\<open>s.strip()\<close>\<close>
  "py_strip s = rev (dropWhile py_isspace (rev (dropWhile py_isspace s)))"


definition lower_char :: "char \<Rightarrow> char" where
  "lower_char c =
     (if CHR ''A'' \<le> c \<and> c \<le> CHR ''Z'' then char_of (of_char c + (32::nat)) else c)"

definition py_lower :: "string \<Rightarrow> string" where
  \<comment> \<open>\<open>s.lower()\<close>\<close>
  "py_lower s = map lower_char s"

definition py_startswith :: "string \<Rightarrow> string \<Rightarrow> bool" where
  \<comment> \<open>\<open>s.startswith(p)\<close>\<close>
  "py_startswith s p = prefix p s"

definition py_in :: "string \<Rightarrow> string \<Rightarrow> bool" where
  \<comment> \<open>\<open>sub in s\<close>\<close>
  "py_in sub s = sublist sub s"

definition before_first :: "char \<Rightarrow> string \<Rightarrow> string" where
  \<comment> \<open>\<open>s.split(c)[0]\<close>: the text before the first \<open>c\<close>, all of \<open>s\<close> when there is none\<close>
  "before_first c s = takeWhile (\<lambda>x. x \<noteq> c) s"


function py_replace :: "string \<Rightarrow> string \<Rightarrow> string \<Rightarrow> string" where
  \<comment> \<open>\<open>s.replace(old, new)\<close>: every occurrence, scanning left to right without overlap\<close>
  "py_replace old new s =
     (if old = [] then new @ concat (map (\<lambda>c. c # new) s)
      else if s = [] then []
      else if prefix old s then new @ py_replace old new (drop (length old) s)
      else hd s # py_replace old new (tl s))"
  by pat_completeness auto
termination
  by (relation "measure (\<lambda>(old, new, s). length s)") auto

declare py_replace.simps [simp del]

fun py_join :: "string \<Rightarrow> string list \<Rightarrow> string" where
  \<comment> \<open>\<open>sep.join(xs)\<close>\<close>
  "py_join sep [] = []"
| "py_join sep [x] = x"
| "py_join sep (x # y # ys) = x @ sep @ py_join sep (y # ys)"

definition get :: "(string \<rightharpoonup> string) \<Rightarrow> string \<Rightarrow> string \<Rightarrow> string" where
  \<comment> \<open>\<open>d.get(key, default)\<close>\<close>
  "get d key dflt = (case d key of None \<Rightarrow> dflt | Some v \<Rightarrow> v)"

definition print :: "string \<Rightarrow> string" where
  \<comment> \<open>what \<open>print(s)\<close> appends to standard output\<close>
  "print s = s @ ''\<newline>''"


section \<open>The sanitizer: \<open>clean_and_parse\<close>\<close>

record scan_state =
  cleaned_lines :: "string list"
  seen_fields :: "string set"
  inside_entry :: bool

definition scan_init :: scan_state where
  "scan_init = \<lparr>cleaned_lines = [], seen_fields = {}, inside_entry = False\<rparr>"

definition scan_step :: "scan_state \<Rightarrow> string \<Rightarrow> scan_state" where
  \<comment> \<open>one iteration of the loop over \<open>lines\<close>; the state returned unchanged is \<open>continue\<close>
      without an append\<close>
  "scan_step st line =
     (let stripped = py_lower (py_strip line) in
      if py_startswith stripped ''@'' then
        st\<lparr>seen_fields := {}, inside_entry := True,
           cleaned_lines := cleaned_lines st @ [line]\<rparr>
      else if inside_entry st \<and> py_in ''='' stripped then
        (let field_part = py_strip (before_first CHR ''='' stripped) in
         if field_part = ''doi'' then
           (if ''doi'' \<in> seen_fields st then st
            else st\<lparr>seen_fields := insert ''doi'' (seen_fields st),
                    cleaned_lines := cleaned_lines st @ [line]\<rparr>)
         else st\<lparr>cleaned_lines := cleaned_lines st @ [line]\<rparr>)
      else st\<lparr>cleaned_lines := cleaned_lines st @ [line]\<rparr>)"

definition scan :: "string list \<Rightarrow> scan_state" where
  "scan lines = foldl scan_step scan_init lines"

definition clean_text :: "string list \<Rightarrow> string" where
  \<comment> \<open>the argument of \<open>parse_string\<close>\<close>
  "clean_text lines = py_join ''\<newline>'' (cleaned_lines (scan lines))"



text \<open>
  The file system is a parameter: whether a path exists, and what \<open>open\<close> followed by
  \<open>readlines\<close> gives for it, the list of lines (each with its line end) or an exception.
  The parser \<open>parse_string\<close> of the pybtex library is a parameter as well: it returns the
  parsed bibliography or raises.
\<close>

record person =
  first_names :: "string list"
  last_names :: "string list"

record entry =
  entry_type :: string
  entry_fields :: "string \<rightharpoonup> string"
  entry_persons :: "string \<rightharpoonup> person list"

text \<open>\<open>bib_data.entries.items()\<close>: the entries with their keys, in the order of the file.\<close>

type_synonym bib_data = "(string \<times> entry) list"

record env =
  path_exists :: "string \<Rightarrow> bool"
  read_lines :: "string \<Rightarrow> py_exception + string list"

type_synonym parser = "string \<Rightarrow> py_exception + bib_data"

definition clean_and_parse :: "env \<Rightarrow> parser \<Rightarrow> string \<Rightarrow> py_exception + bib_data" where
  "clean_and_parse fs parse_string filename =
     (case read_lines fs filename of
        Inl e \<Rightarrow> Inl e
      | Inr lines \<Rightarrow> parse_string (clean_text lines))"


section \<open>The renderer: \<open>render_pubs\<close>\<close>

definition categories :: "(string \<times> string list) list" where
  "categories =
     [(''Journal Articles'', [''article'']),
      (''Conference Papers'', [''inproceedings'', ''proceedings'']),
      (''Books and Chapters'', [''book'', ''incollection'']),
      (''Theses'', [''phdthesis'', ''mastersthesis''])]"

definition year_key :: "string \<times> entry \<Rightarrow> string" where
  \<comment> \<open>the \<open>key\<close> of \<open>sorted\<close>\<close>
  "year_key x = get (entry_fields (snd x)) ''year'' ''0000''"

definition all_entries :: "bib_data \<Rightarrow> (string \<times> entry) list" where
  \<comment> \<open>\<open>sorted(..., key=..., reverse=True)\<close>: a stable sort; with \<open>reverse\<close> the list is
      reversed, sorted ascending and reversed again, so equal keys keep their order\<close>
  "all_entries bib = rev (sort_key year_key (rev bib))"

definition cat_entries :: "(string \<times> entry) list \<Rightarrow> string list \<Rightarrow> (string \<times> entry) list" where
  "cat_entries es types = filter (\<lambda>e. py_lower (entry_type (snd e)) \<in> set types) es"

definition entry_year :: "entry \<Rightarrow> string" where
  "entry_year e = get (entry_fields e) ''year'' ''n.d.''"

definition entry_title :: "entry \<Rightarrow> string" where
  "entry_title e = py_replace ''}'' '''' (py_replace ''{'' '''' (get (entry_fields e) ''title'' ''Untitled''))"

definition venue :: "entry \<Rightarrow> string" where
  "venue e =
     get (entry_fields e) ''journal''
       (get (entry_fields e) ''booktitle''
          (get (entry_fields e) ''publisher''
             (get (entry_fields e) ''school'' ''Preprint'')))"

definition doi_str :: "entry \<Rightarrow> string" where
  "doi_str e =
     (let doi = get (entry_fields e) ''doi'' '''' in
      if doi \<noteq> '''' then
        '' [[Link](https://doi.org/'' @ py_replace ''https://doi.org/'' '''' doi @ '')]''
      else '''')"

definition format_author :: "string option \<Rightarrow> person \<Rightarrow> string" where
  \<comment> \<open>the body of the loop over the authors; \<open>None\<close> and the empty string are falsy\<close>
  "format_author author_highlight p =
     (let fname = (case first_names p of [] \<Rightarrow> '''' | f # _ \<Rightarrow> f);
          lname = (case last_names p of [] \<Rightarrow> '''' | l # _ \<Rightarrow> l);
          name = py_strip (fname @ '' '' @ lname)
      in case author_highlight of
           None \<Rightarrow> name
         | Some h \<Rightarrow> if h \<noteq> '''' \<and> py_in h name then ''**'' @ name @ ''**'' else name)"

definition author_str :: "string option \<Rightarrow> entry \<Rightarrow> string" where
  "author_str author_highlight e =
     py_join '', ''
       (map (format_author author_highlight)
          (case entry_persons e ''author'' of None \<Rightarrow> [] | Some ps \<Rightarrow> ps))"

definition entry_line :: "string option \<Rightarrow> entry \<Rightarrow> string" where
  \<comment> \<open>the argument of the \<open>print\<close> of one entry\<close>
  "entry_line author_highlight e =
     ''1. '' @ author_str author_highlight e @ '' ('' @ entry_year e @ ''). **''
       @ entry_title e @ ''.** *'' @ venue e @ ''*.'' @ doi_str e"

definition render_category ::
  "string option \<Rightarrow> (string \<times> entry) list \<Rightarrow> string \<times> string list \<Rightarrow> string" where
  \<comment> \<open>one iteration of the loop over \<open>categories.items()\<close>: what it prints\<close>
  "render_category author_highlight es cat =
     (let ces = cat_entries es (snd cat) in
      if ces = [] then ''''
      else print (''### '' @ fst cat)
           @ concat (map (\<lambda>(key, e). print (entry_line author_highlight e)) ces)
           @ print ''\<newline>'')"

definition render_entries :: "string option \<Rightarrow> bib_data \<Rightarrow> string" where
  \<comment> \<open>\<open>render_pubs\<close> from the definition of \<open>categories\<close> on\<close>
  "render_entries author_highlight bib =
     concat (map (render_category author_highlight (all_entries bib)) categories)"

definition render_pubs :: "env \<Rightarrow> parser \<Rightarrow> string \<Rightarrow> string option \<Rightarrow> string" where
  \<comment> \<open>the text \<open>render_pubs\<close> writes to standard output\<close>
  "render_pubs fs parse_string bib_file author_highlight =
     (if \<not> path_exists fs bib_file then
        print (''**Error:** Could not find bibliography file: `'' @ bib_file @ ''`'')
      else case clean_and_parse fs parse_string bib_file of
             Inl e \<Rightarrow> print (''**Error parsing bib file:** '' @ e)
           | Inr bib_data \<Rightarrow> render_entries author_highlight bib_data)"


section \<open>Page title: \<open>get_current_page_title\<close>\<close>




section \<open>The specification's wording, as definitions\<close>

text \<open>
  The definitions of this section follow the words of the specification, not the code;
  the theorems below compare them with the definitions above.
\<close>

definition spec_venue :: "entry \<Rightarrow> string" where
  \<comment> \<open>the first field present among journal, booktitle, publisher, school; else Preprint\<close>
  "spec_venue e =
     (case find (\<lambda>k. entry_fields e k \<noteq> None)
             [''journal'', ''booktitle'', ''publisher'', ''school''] of
        None \<Rightarrow> ''Preprint''
      | Some k \<Rightarrow> the (entry_fields e k))"

definition spec_doi_str :: "entry \<Rightarrow> string" where
  \<comment> \<open>the prefix is stripped only when the value begins with it\<close>
  "spec_doi_str e =
     (case entry_fields e ''doi'' of
        None \<Rightarrow> ''''
      | Some d \<Rightarrow>
          if d = '''' then ''''
          else '' [[Link](https://doi.org/''
               @ (if prefix ''https://doi.org/'' d then drop (length ''https://doi.org/'') d else d)
               @ '')]'')"




definition first_category :: "entry \<Rightarrow> (string \<times> string list) option" where
  \<comment> \<open>the first category, in the fixed order, whose set holds the lowercased type tag\<close>
  "first_category e = find (\<lambda>cat. py_lower (entry_type e) \<in> set (snd cat)) categories"






section \<open>Concrete inputs\<close>

definition entry_with_doi :: "string \<Rightarrow> entry" where
  "entry_with_doi d =
     \<lparr>entry_type = ''article'', entry_fields = [''doi'' \<mapsto> d], entry_persons = Map.empty\<rparr>"

definition empty_journal_entry :: entry where
  "empty_journal_entry =
     \<lparr>entry_type = ''incollection'',
      entry_fields = [''journal'' \<mapsto> '''', ''booktitle'' \<mapsto> ''Proceedings'', ''publisher'' \<mapsto> ''Springer''],
      entry_persons = Map.empty\<rparr>"



definition file_with_lines :: "string list \<Rightarrow> env" where
  "file_with_lines lines =
     \<lparr>path_exists = (\<lambda>p. p = ''refs.bib''),
      read_lines = (\<lambda>p. if p = ''refs.bib'' then Inr lines else Inl ''No such file or directory'')\<rparr>"





definition misc_item :: "string \<times> entry" where
  "misc_item =
     (''a'', \<lparr>entry_type = ''misc'', entry_fields = [''year'' \<mapsto> ''2021''], entry_persons = Map.empty\<rparr>)"

definition thesis_item :: "string \<times> entry" where
  "thesis_item =
     (''b'', \<lparr>entry_type = ''phdthesis'', entry_fields = [''year'' \<mapsto> ''2019''], entry_persons = Map.empty\<rparr>)"

definition thesis_and_misc :: bib_data where
  "thesis_and_misc = [misc_item, thesis_item]"







definition jane_doe_entry :: entry where
  "jane_doe_entry =
     \<lparr>entry_type = ''article'',
      entry_fields = [''title'' \<mapsto> ''A {Study}'', ''journal'' \<mapsto> ''Nature'',
                      ''year'' \<mapsto> ''2020'', ''doi'' \<mapsto> ''10.1/xyz''],
      entry_persons = [''author'' \<mapsto> [\<lparr>first_names = [''Jane''], last_names = [''Doe'']\<rparr>]]\<rparr>"

definition jane_doe_lines :: "string list" where
  "jane_doe_lines =
     [''@article{doe2020,\<newline>'',
      ''  author = {Doe, Jane},\<newline>'',
      ''  title = {A {Study}},\<newline>'',
      ''  journal = {Nature},\<newline>'',
      ''  year = {2020},\<newline>'',
      ''  doi = {10.1/xyz}\<newline>'',
      ''}\<newline>'']"

definition jane_doe_parser :: parser where
  \<comment> \<open>an instance of the parser parameter: the bibliography of the one file above, an
      error for any other text\<close>
  "jane_doe_parser text =
     (if text = py_join ''\<newline>'' jane_doe_lines then Inr [(''doe2020'', jane_doe_entry)]
      else Inl ''syntax error'')"


section \<open>An auxiliary definition\<close>



section \<open>Lemmas on the string operations\<close>

lemma py_replace_absent:
  "old \<noteq> [] \<Longrightarrow> \<not> sublist old s \<Longrightarrow> py_replace old new s = s"
proof (induction s)
  case Nil
  then show ?case by (simp add: py_replace.simps)
next
  case (Cons c s)
  from Cons.prems have np: "\<not> prefix old (c # s)" and ns: "\<not> sublist old s"
    by (auto simp: sublist_Cons_right)
  from Cons.IH [OF Cons.prems(1) ns] np Cons.prems(1) show ?case
    by (subst py_replace.simps) simp
qed

lemma py_replace_at_prefix:
  "old \<noteq> [] \<Longrightarrow> py_replace old new (old @ r) = new @ py_replace old new r"
  by (subst py_replace.simps) simp






section \<open>The DOI link\<close>

text \<open>
  Claim C2, as stated: a doi value that does not begin with \<open>https://doi.org/\<close> is used
  verbatim in the link. The code calls \<open>replace\<close>, which removes the literal wherever it
  occurs: the value \<open>see https://doi.org/10.1/x\<close> does not begin with it and is rendered
  as \<open>see 10.1/x\<close>.
\<close>

theorem doi_link_counterexample:
  "\<not> prefix ''https://doi.org/'' ''see https://doi.org/10.1/x''
   \<and> doi_str (entry_with_doi ''see https://doi.org/10.1/x'') = '' [[Link](https://doi.org/see 10.1/x)]''
   \<and> doi_str (entry_with_doi ''see https://doi.org/10.1/x'')
       \<noteq> spec_doi_str (entry_with_doi ''see https://doi.org/10.1/x'')"
  by code_simp

text \<open>
  Claim C2, amended: when the doi field is absent or empty no link segment is emitted;
  otherwise the segment is \<open> [[Link](https://doi.org/{d})]\<close> where \<open>d\<close> is the doi value
  with every occurrence of the literal \<open>https://doi.org/\<close> removed. A value in which the
  literal does not occur is used verbatim, a value that begins with it and has no further
  occurrence loses exactly that prefix, and the values \<open>https://doi.org/10.1/x\<close> and
  \<open>10.1/x\<close> both give the link target \<open>https://doi.org/10.1/x\<close>.
\<close>

theorem doi_link_all_occurrences:
  "(entry_fields e ''doi'' = None \<or> entry_fields e ''doi'' = Some '''' \<longrightarrow> doi_str e = '''')
   \<and> (entry_fields e ''doi'' = Some d \<and> d \<noteq> '''' \<longrightarrow>
        doi_str e = '' [[Link](https://doi.org/'' @ py_replace ''https://doi.org/'' '''' d @ '')]''
        \<and> (\<not> sublist ''https://doi.org/'' d \<longrightarrow> py_replace ''https://doi.org/'' '''' d = d)
        \<and> (\<forall>r. d = ''https://doi.org/'' @ r \<and> \<not> sublist ''https://doi.org/'' r \<longrightarrow>
              py_replace ''https://doi.org/'' '''' d = r))
   \<and> doi_str (entry_with_doi ''https://doi.org/10.1/x'') = '' [[Link](https://doi.org/10.1/x)]''
   \<and> doi_str (entry_with_doi ''10.1/x'') = '' [[Link](https://doi.org/10.1/x)]''"
proof -
  have a: "entry_fields e ''doi'' = None \<or> entry_fields e ''doi'' = Some '''' \<Longrightarrow> doi_str e = ''''"
    by (auto simp: doi_str_def get_def)
  have b: "entry_fields e ''doi'' = Some d \<Longrightarrow> d \<noteq> '''' \<Longrightarrow>
        doi_str e = '' [[Link](https://doi.org/'' @ py_replace ''https://doi.org/'' '''' d @ '')]''"
    by (simp add: doi_str_def get_def)
  have c: "\<not> sublist ''https://doi.org/'' d \<Longrightarrow> py_replace ''https://doi.org/'' '''' d = d"
    by (rule py_replace_absent) simp_all
  have d: "\<not> sublist ''https://doi.org/'' r \<Longrightarrow>
        py_replace ''https://doi.org/'' '''' (''https://doi.org/'' @ r) = r" for r
    using py_replace_at_prefix [of "''https://doi.org/''" "''''" r]
      py_replace_absent [of "''https://doi.org/''" r "''''"] by simp
  have e1: "doi_str (entry_with_doi ''https://doi.org/10.1/x'') = '' [[Link](https://doi.org/10.1/x)]''"
    by code_simp
  have e2: "doi_str (entry_with_doi ''10.1/x'') = '' [[Link](https://doi.org/10.1/x)]''"
    by code_simp
  show ?thesis
    using a b c d e1 e2 by blast
qed

theorem doi_link_all_occurrences_witness:
  "entry_fields (entry_with_doi ''https://doi.org/10.1/x'') ''doi'' = Some ''https://doi.org/10.1/x''
   \<and> \<not> sublist ''https://doi.org/'' ''10.1/x''
   \<and> doi_str (entry_with_doi ''https://doi.org/10.1/x'')
       = '' [[Link](https://doi.org/'' @ py_replace ''https://doi.org/'' '''' ''https://doi.org/10.1/x'' @ '')]''
   \<and> py_replace ''https://doi.org/'' '''' ''https://doi.org/10.1/x'' = ''10.1/x''"
proof -
  have h: "entry_fields (entry_with_doi ''https://doi.org/10.1/x'') ''doi'' = Some ''https://doi.org/10.1/x''"
    by (simp add: entry_with_doi_def)
  have n: "\<not> sublist ''https://doi.org/'' ''10.1/x''"
    by code_simp
  show ?thesis
    using h n
      doi_link_all_occurrences [of "entry_with_doi ''https://doi.org/10.1/x''" "''https://doi.org/10.1/x''"]
    by simp
qed


section \<open>The order of the entries\<close>

text \<open>
  Claim C4: in the sorted sequence of all parsed entries, the sort key of each entry (its
  year field when present, else the string \<open>0000\<close>) is greater than or equal to the key of
  every later entry under the lexicographic order of strings; the sequence holds the
  parsed entries and no others.
\<close>

theorem all_entries_sorted_desc:
  "sorted_wrt (\<lambda>a b. year_key b \<le> year_key a) (all_entries bib)
   \<and> year_key (k, e) = (case entry_fields e ''year'' of None \<Rightarrow> ''0000'' | Some y \<Rightarrow> y)
   \<and> set (all_entries bib) = set bib \<and> length (all_entries bib) = length bib"
proof -
  have "sorted (map year_key (sort_key year_key (rev bib)))"
    by (rule sorted_sort_key)
  then have "sorted_wrt (\<lambda>a b. year_key a \<le> year_key b) (sort_key year_key (rev bib))"
    by (simp add: sorted_map)
  then have "sorted_wrt (\<lambda>a b. year_key b \<le> year_key a) (all_entries bib)"
    by (simp add: all_entries_def sorted_wrt_rev)
  then show ?thesis
    by (simp add: all_entries_def year_key_def get_def)
qed


section \<open>The venue\<close>

text \<open>
  Claim C6: the venue of a rendered entry is the value of the first field present among
  journal, booktitle, publisher and school, in that order, and the literal \<open>Preprint\<close>
  when none is present; a field present with the empty string as its value wins over the
  later fields.
\<close>

theorem venue_first_present:
  "venue e = spec_venue e
   \<and> (entry_fields e ''journal'' = Some '''' \<longrightarrow> venue e = '''')
   \<and> entry_line author_highlight e =
       ''1. '' @ author_str author_highlight e @ '' ('' @ entry_year e @ ''). **''
         @ entry_title e @ ''.** *'' @ spec_venue e @ ''*.'' @ doi_str e"
proof -
  have "venue e = spec_venue e"
    by (auto simp: venue_def spec_venue_def get_def split: option.splits)
  then show ?thesis
    by (auto simp: entry_line_def venue_def get_def)
qed

theorem venue_first_present_witness:
  "entry_fields empty_journal_entry ''journal'' = Some ''''
   \<and> entry_fields empty_journal_entry ''booktitle'' = Some ''Proceedings''
   \<and> venue empty_journal_entry = ''''"
proof -
  have h: "entry_fields empty_journal_entry ''journal'' = Some ''''"
    by (simp add: empty_journal_entry_def)
  have b: "entry_fields empty_journal_entry ''booktitle'' = Some ''Proceedings''"
    by (simp add: empty_journal_entry_def)
  have "entry_fields empty_journal_entry ''journal'' = Some '''' \<longrightarrow> venue empty_journal_entry = ''''"
    using venue_first_present [where e = empty_journal_entry and author_highlight = None]
    by blast
  with h b show ?thesis
    by blast
qed


section \<open>The error paths of \<open>render_pubs\<close>\<close>




section \<open>The empty highlight token\<close>



section \<open>The page title\<close>







section \<open>The categories\<close>

lemma cat_entries_all_entries:
  "cat_entries (all_entries bib) types = rev (sort_key year_key (rev (cat_entries bib types)))"
  by (simp add: cat_entries_def all_entries_def rev_filter [symmetric] filter_sort)

lemma first_category_None:
  "(first_category e = None) = (\<forall>cat \<in> set categories. py_lower (entry_type e) \<notin> set (snd cat))"
  unfolding first_category_def find_None_iff by blast

lemma find_in_categories:
  "find (\<lambda>cat. t \<in> set (snd cat)) categories =
     (if t = ''article'' then Some (''Journal Articles'', [''article''])
      else if t = ''inproceedings'' \<or> t = ''proceedings''
        then Some (''Conference Papers'', [''inproceedings'', ''proceedings''])
      else if t = ''book'' \<or> t = ''incollection''
        then Some (''Books and Chapters'', [''book'', ''incollection''])
      else if t = ''phdthesis'' \<or> t = ''mastersthesis''
        then Some (''Theses'', [''phdthesis'', ''mastersthesis''])
      else None)"
  by (simp add: categories_def)

lemma first_category_iff:
  assumes "cat \<in> set categories"
  shows "(first_category e = Some cat) = (py_lower (entry_type e) \<in> set (snd cat))"
proof -
  from assms have "cat = (''Journal Articles'', [''article''])
      \<or> cat = (''Conference Papers'', [''inproceedings'', ''proceedings''])
      \<or> cat = (''Books and Chapters'', [''book'', ''incollection''])
      \<or> cat = (''Theses'', [''phdthesis'', ''mastersthesis''])"
    by (simp add: categories_def)
  then show ?thesis
  proof (elim disjE)
    assume "cat = (''Journal Articles'', [''article''])"
    then show ?thesis
      by (simp add: first_category_def find_in_categories)
  next
    assume "cat = (''Conference Papers'', [''inproceedings'', ''proceedings''])"
    then show ?thesis
      by (simp add: first_category_def find_in_categories)
  next
    assume "cat = (''Books and Chapters'', [''book'', ''incollection''])"
    then show ?thesis
      by (simp add: first_category_def find_in_categories)
  next
    assume "cat = (''Theses'', [''phdthesis'', ''mastersthesis''])"
    then show ?thesis
      by (simp add: first_category_def find_in_categories)
  qed
qed

lemma cat_entries_drop_uncategorised:
  assumes "cat \<in> set categories"
  shows "cat_entries (filter (\<lambda>x. first_category (snd x) \<noteq> None) bib) (snd cat)
           = cat_entries bib (snd cat)"
proof -
  have "py_lower (entry_type (snd x)) \<in> set (snd cat) \<Longrightarrow> first_category (snd x) \<noteq> None"
    for x :: "string \<times> entry"
    using assms by (auto simp: first_category_None)
  then show ?thesis
    unfolding cat_entries_def filter_filter by (intro filter_cong) auto
qed

lemma render_category_drop_uncategorised:
  assumes "cat \<in> set categories"
  shows "render_category h (all_entries (filter (\<lambda>x. first_category (snd x) \<noteq> None) bib)) cat
           = render_category h (all_entries bib) cat"
proof -
  have "cat_entries (all_entries (filter (\<lambda>x. first_category (snd x) \<noteq> None) bib)) (snd cat)
          = cat_entries (all_entries bib) (snd cat)"
    by (simp only: cat_entries_all_entries cat_entries_drop_uncategorised [OF assms])
  then show ?thesis
    by (simp only: render_category_def)
qed

text \<open>
  Claim C5: a parsed entry is among the entries printed for a category exactly when that
  category is the first one, in the fixed order Journal Articles, Conference Papers, Books
  and Chapters, Theses, whose accepted types contain the entry's lowercased type tag, so it
  appears under at most one category; an entry whose type no category accepts is printed
  under none, and the output is the same as if it were not in the bibliography; a category
  with no matching entry prints nothing, not even its heading.
\<close>

theorem entry_in_first_category_only:
  "(\<forall>cat \<in> set categories. \<forall>x.
       (x \<in> set (cat_entries (all_entries bib) (snd cat)))
         = (x \<in> set bib \<and> first_category (snd x) = Some cat))
   \<and> (\<forall>cat \<in> set categories. \<forall>x \<in> set bib. first_category (snd x) = None \<longrightarrow>
          x \<notin> set (cat_entries (all_entries bib) (snd cat)))
   \<and> render_entries author_highlight (filter (\<lambda>x. first_category (snd x) \<noteq> None) bib)
        = render_entries author_highlight bib
   \<and> (\<forall>cat \<in> set categories. cat_entries (all_entries bib) (snd cat) = [] \<longrightarrow>
          render_category author_highlight (all_entries bib) cat = '''')
   \<and> (\<forall>cat \<in> set categories. cat_entries (all_entries bib) (snd cat) \<noteq> [] \<longrightarrow>
          render_category author_highlight (all_entries bib) cat
            = ''### '' @ fst cat @ ''\<newline>''
              @ concat (map (\<lambda>x. entry_line author_highlight (snd x) @ ''\<newline>'')
                          (cat_entries (all_entries bib) (snd cat)))
              @ ''\<newline>\<newline>'')
   \<and> render_entries author_highlight bib
        = concat (map (render_category author_highlight (all_entries bib)) categories)
   \<and> map fst categories = [''Journal Articles'', ''Conference Papers'', ''Books and Chapters'', ''Theses'']"
proof -
  have a: "\<forall>cat \<in> set categories. \<forall>x.
       (x \<in> set (cat_entries (all_entries bib) (snd cat)))
         = (x \<in> set bib \<and> first_category (snd x) = Some cat)"
  proof (intro ballI allI)
    fix cat :: "string \<times> string list" and x :: "string \<times> entry"
    assume c: "cat \<in> set categories"
    have "(x \<in> set (cat_entries (all_entries bib) (snd cat)))
            = (x \<in> set bib \<and> py_lower (entry_type (snd x)) \<in> set (snd cat))"
      by (simp add: cat_entries_def all_entries_def)
    then show "(x \<in> set (cat_entries (all_entries bib) (snd cat)))
            = (x \<in> set bib \<and> first_category (snd x) = Some cat)"
      by (simp only: first_category_iff [OF c])
  qed
  have b: "\<forall>cat \<in> set categories. \<forall>x \<in> set bib. first_category (snd x) = None \<longrightarrow>
          x \<notin> set (cat_entries (all_entries bib) (snd cat))"
  proof (intro ballI impI)
    fix cat :: "string \<times> string list" and x :: "string \<times> entry"
    assume c: "cat \<in> set categories" and n: "first_category (snd x) = None"
    from a c have "(x \<in> set (cat_entries (all_entries bib) (snd cat)))
            = (x \<in> set bib \<and> first_category (snd x) = Some cat)"
      by blast
    with n show "x \<notin> set (cat_entries (all_entries bib) (snd cat))"
      by simp
  qed
  have c: "render_entries author_highlight (filter (\<lambda>x. first_category (snd x) \<noteq> None) bib)
        = render_entries author_highlight bib"
    unfolding render_entries_def
    by (intro arg_cong [where f = concat] map_cong refl render_category_drop_uncategorised)
  have d: "\<forall>cat \<in> set categories. cat_entries (all_entries bib) (snd cat) = [] \<longrightarrow>
          render_category author_highlight (all_entries bib) cat = ''''"
    by (simp add: render_category_def)
  have e: "\<forall>cat \<in> set categories. cat_entries (all_entries bib) (snd cat) \<noteq> [] \<longrightarrow>
          render_category author_highlight (all_entries bib) cat
            = ''### '' @ fst cat @ ''\<newline>''
              @ concat (map (\<lambda>x. entry_line author_highlight (snd x) @ ''\<newline>'')
                          (cat_entries (all_entries bib) (snd cat)))
              @ ''\<newline>\<newline>''"
    by (simp add: render_category_def print_def Let_def case_prod_unfold)
  have f: "map fst categories = [''Journal Articles'', ''Conference Papers'', ''Books and Chapters'', ''Theses'']"
    by (simp add: categories_def)
  have g: "render_entries author_highlight bib
        = concat (map (render_category author_highlight (all_entries bib)) categories)"
    by (simp only: render_entries_def)
  show ?thesis
    by (intro conjI) (rule a b c d e f g)+
qed

theorem entry_in_first_category_only_witness:
  "(''Theses'', [''phdthesis'', ''mastersthesis'']) \<in> set categories
   \<and> (''Journal Articles'', [''article'']) \<in> set categories
   \<and> misc_item \<in> set thesis_and_misc \<and> first_category (snd misc_item) = None
   \<and> misc_item \<notin> set (cat_entries (all_entries thesis_and_misc) [''phdthesis'', ''mastersthesis''])
   \<and> thesis_item \<in> set thesis_and_misc
   \<and> first_category (snd thesis_item) = Some (''Theses'', [''phdthesis'', ''mastersthesis''])
   \<and> thesis_item \<in> set (cat_entries (all_entries thesis_and_misc) [''phdthesis'', ''mastersthesis''])
   \<and> cat_entries (all_entries thesis_and_misc) [''article''] = []
   \<and> render_category None (all_entries thesis_and_misc) (''Journal Articles'', [''article'']) = ''''"
proof -
  let ?th = "(''Theses'', [''phdthesis'', ''mastersthesis''])"
  let ?ja = "(''Journal Articles'', [''article''])"
  have c1: "?th \<in> set categories" and c2: "?ja \<in> set categories"
    by (simp_all add: categories_def)
  have m: "misc_item \<in> set thesis_and_misc" and t: "thesis_item \<in> set thesis_and_misc"
    by (simp_all add: thesis_and_misc_def)
  have fm: "first_category (snd misc_item) = None"
    by code_simp
  have ft: "first_category (snd thesis_item) = Some ?th"
    by code_simp
  have em: "cat_entries (all_entries thesis_and_misc) [''article''] = []"
    by code_simp
  note T = entry_in_first_category_only [of thesis_and_misc None]
  from T c1 m fm have r1: "misc_item \<notin> set (cat_entries (all_entries thesis_and_misc) (snd ?th))"
    by blast
  from T c1 t ft have r2: "thesis_item \<in> set (cat_entries (all_entries thesis_and_misc) (snd ?th))"
    by blast
  from em have em': "cat_entries (all_entries thesis_and_misc) (snd ?ja) = []"
    by simp
  from T c2 em' have r3: "render_category None (all_entries thesis_and_misc) ?ja = ''''"
    by blast
  from c1 c2 m t fm ft em r1 r2 r3 show ?thesis
    by simp
qed


section \<open>The sanitizer\<close>


















section \<open>A single article, end to end\<close>

lemma all_entries_single: "all_entries [x] = [x]"
  by (simp add: all_entries_def)

lemma render_single_article:
  assumes "entry_type e = ''article''"
  shows "render_entries h [(key, e)] = ''### Journal Articles\<newline>'' @ entry_line h e @ ''\<newline>\<newline>\<newline>''"
proof -
  have l: "py_lower ''article'' = ''article''"
    by code_simp
  show ?thesis
    by (simp add: render_entries_def categories_def render_category_def cat_entries_def
          all_entries_single assms l print_def)
qed

text \<open>
  Claim C3, amended: for a bib file that exists and parses to one \<open>article\<close> entry with
  year \<open>2020\<close>, title \<open>A {Study}\<close>, journal \<open>Nature\<close>, doi \<open>10.1/xyz\<close> and one author with
  first name \<open>Jane\<close> and last name \<open>Doe\<close>, rendered with the highlight token \<open>Doe\<close>,
  \<open>render_pubs\<close> prints exactly the heading line \<open>### Journal Articles\<close>, then the line
  \<open>1. **Jane Doe** (2020). **A Study.** *Nature*. [[Link](https://doi.org/10.1/xyz)]\<close>,
  followed by two blank lines and nothing else.
\<close>

theorem single_article_output:
  assumes "path_exists fs bib_file"
    and "clean_and_parse fs parse_string bib_file = Inr [(key, e)]"
    and "entry_type e = ''article''"
    and "entry_fields e ''year'' = Some ''2020''"
    and "entry_fields e ''title'' = Some ''A {Study}''"
    and "entry_fields e ''journal'' = Some ''Nature''"
    and "entry_fields e ''doi'' = Some ''10.1/xyz''"
    and "entry_persons e ''author'' = Some [p]"
    and "first_names p = [''Jane'']" and "last_names p = [''Doe'']"
  shows "render_pubs fs parse_string bib_file (Some ''Doe'') =
           ''### Journal Articles\<newline>1. **Jane Doe** (2020). **A Study.** *Nature*. [[Link](https://doi.org/10.1/xyz)]\<newline>\<newline>\<newline>''"
proof -
  have n: "py_strip ''Jane Doe'' = ''Jane Doe''" by code_simp
  have i: "py_in ''Doe'' ''Jane Doe''" by code_simp
  have a: "author_str (Some ''Doe'') e = ''**Jane Doe**''"
    using assms(8-10) n i by (simp add: author_str_def format_author_def)
  have t: "py_replace ''}'' '''' (py_replace ''{'' '''' ''A {Study}'') = ''A Study''" by code_simp
  have d: "py_replace ''https://doi.org/'' '''' ''10.1/xyz'' = ''10.1/xyz''" by code_simp
  have l: "entry_line (Some ''Doe'') e =
      ''1. **Jane Doe** (2020). **A Study.** *Nature*. [[Link](https://doi.org/10.1/xyz)]''"
    using assms(4-7) a t d
    by (simp add: entry_line_def entry_year_def entry_title_def venue_def doi_str_def get_def)
  show ?thesis
    using assms(1,2) render_single_article [OF assms(3), of "Some ''Doe''" key] l
    by (simp add: render_pubs_def)
qed

text \<open>
  Claim C3, as stated: after the heading and the entry line comes a single blank line and
  nothing else. The code ends a category with \<open>print("\n")\<close>, which writes the line
  break of its argument and the line break of \<open>print\<close>: two blank lines follow the entry
  line.
\<close>

theorem single_article_output_counterexample:
  "render_pubs (file_with_lines jane_doe_lines) jane_doe_parser ''refs.bib'' (Some ''Doe'') =
      ''### Journal Articles\<newline>1. **Jane Doe** (2020). **A Study.** *Nature*. [[Link](https://doi.org/10.1/xyz)]\<newline>\<newline>\<newline>''
   \<and> render_pubs (file_with_lines jane_doe_lines) jane_doe_parser ''refs.bib'' (Some ''Doe'') \<noteq>
      ''### Journal Articles\<newline>1. **Jane Doe** (2020). **A Study.** *Nature*. [[Link](https://doi.org/10.1/xyz)]\<newline>\<newline>''"
  by code_simp

theorem single_article_output_witness:
  "path_exists (file_with_lines jane_doe_lines) ''refs.bib''
   \<and> clean_and_parse (file_with_lines jane_doe_lines) jane_doe_parser ''refs.bib''
        = Inr [(''doe2020'', jane_doe_entry)]
   \<and> entry_type jane_doe_entry = ''article''
   \<and> entry_fields jane_doe_entry ''year'' = Some ''2020''
   \<and> entry_fields jane_doe_entry ''title'' = Some ''A {Study}''
   \<and> entry_fields jane_doe_entry ''journal'' = Some ''Nature''
   \<and> entry_fields jane_doe_entry ''doi'' = Some ''10.1/xyz''
   \<and> entry_persons jane_doe_entry ''author'' = Some [\<lparr>first_names = [''Jane''], last_names = [''Doe'']\<rparr>]
   \<and> render_pubs (file_with_lines jane_doe_lines) jane_doe_parser ''refs.bib'' (Some ''Doe'') =
        ''### Journal Articles\<newline>1. **Jane Doe** (2020). **A Study.** *Nature*. [[Link](https://doi.org/10.1/xyz)]\<newline>\<newline>\<newline>''"
proof -
  have h1: "path_exists (file_with_lines jane_doe_lines) ''refs.bib''"
    by (simp add: file_with_lines_def)
  have c: "clean_text jane_doe_lines = py_join ''\<newline>'' jane_doe_lines"
    by code_simp
  have h2: "clean_and_parse (file_with_lines jane_doe_lines) jane_doe_parser ''refs.bib''
        = Inr [(''doe2020'', jane_doe_entry)]"
    by (simp add: clean_and_parse_def file_with_lines_def c jane_doe_parser_def)
  have h3: "entry_type jane_doe_entry = ''article''"
    and h4: "entry_fields jane_doe_entry ''year'' = Some ''2020''"
    and h5: "entry_fields jane_doe_entry ''title'' = Some ''A {Study}''"
    and h6: "entry_fields jane_doe_entry ''journal'' = Some ''Nature''"
    and h7: "entry_fields jane_doe_entry ''doi'' = Some ''10.1/xyz''"
    and h8: "entry_persons jane_doe_entry ''author'' = Some [\<lparr>first_names = [''Jane''], last_names = [''Doe'']\<rparr>]"
    by (simp_all add: jane_doe_entry_def)
  from single_article_output [OF h1 h2 h3 h4 h5 h6 h7 h8] h1 h2 h3 h4 h5 h6 h7 h8
  show ?thesis
    by simp
qed

end
